theory Spec2Isabelle
  imports Complex_Main
begin

section \<open>Python formatting primitives used by sysutil.py\<close>

text \<open>
  Python strings are modelled as \<^typ>\<open>string\<close>; standard output is a string too, and
  a character of it is one byte of the UTF-8 text the program writes.
\<close>

definition digit_char :: "nat \<Rightarrow> char" where
  "digit_char d = ''0123456789'' ! d"

text \<open>Decimal digits of a natural number, most significant first.\<close>

fun str_nat :: "nat \<Rightarrow> string" where
  "str_nat n = (if n < 10 then [digit_char n] else str_nat (n div 10) @ [digit_char (n mod 10)])"

declare str_nat.simps [simp del]

text \<open>\<^verbatim>\<open>"%d" % i\<close> and \<^verbatim>\<open>str(i)\<close> for a Python int.\<close>

definition str_int :: "int \<Rightarrow> string" where
  "str_int i = (if i < 0 then ''-'' @ str_nat (nat (- i)) else str_nat (nat i))"

text \<open>\<^verbatim>\<open>"%02d" % i\<close>: zero padding to width 2, the sign counted in the width.\<close>

definition fmt_02d :: "int \<Rightarrow> string" where
  "fmt_02d i =
     (let sign = (if i < 0 then ''-'' else '''');
          ds = str_nat (nat \<bar>i\<bar>)
      in sign @ replicate (2 - (length sign + length ds)) (CHR ''0'') @ ds)"

text \<open>Python's \<^verbatim>\<open>divmod\<close> on ints: floor division and a remainder with the divisor's sign.\<close>

definition divmod :: "int \<Rightarrow> int \<Rightarrow> int \<times> int" where
  "divmod a b = (a div b, a mod b)"

section \<open>secs2hours\<close>

definition secs2hours :: "int \<Rightarrow> string" where
  "secs2hours secs =
     (let (mm, ss) = divmod secs 60;
          (hh, mm) = divmod mm 60
      in str_int hh @ '':'' @ fmt_02d mm @ '':'' @ fmt_02d ss)"

section \<open>More formatting: padding, optional values, lists\<close>

text \<open>\<^verbatim>\<open>"%-20s"\<close> and the format spec \<^verbatim>\<open>{s:4}\<close> on a str pad on the right with spaces;
  \<^verbatim>\<open>{i:4}\<close> on an int pads on the left. Padding counts characters of the model, which
  are the characters of Python for ASCII text.\<close>

definition ljust :: "nat \<Rightarrow> string \<Rightarrow> string" where
  "ljust w s = s @ replicate (w - length s) (CHR '' '')"

definition rjust :: "nat \<Rightarrow> string \<Rightarrow> string" where
  "rjust w s = replicate (w - length s) (CHR '' '') @ s"

text \<open>\<^verbatim>\<open>str(x)\<close> where \<^verbatim>\<open>x\<close> is an int or \<^verbatim>\<open>None\<close>.\<close>

definition str_opt_int :: "int option \<Rightarrow> string" where
  "str_opt_int x = (case x of None \<Rightarrow> ''None'' | Some i \<Rightarrow> str_int i)"

text \<open>\<^verbatim>\<open>", ".join(xs)\<close>.\<close>

fun join_comma :: "string list \<Rightarrow> string" where
  "join_comma [] = []"
| "join_comma [x] = x"
| "join_comma (x # y # ys) = x @ '', '' @ join_comma (y # ys)"

text \<open>\<^verbatim>\<open>int(x)\<close> on a float truncates towards zero. A Python float is modelled by the
  rational number it denotes.\<close>

definition int_of_float :: "rat \<Rightarrow> int" where
  "int_of_float x = (if 0 \<le> x then \<lfloor>x\<rfloor> else \<lceil>x\<rceil>)"

section \<open>The environment: psutil, socket and the float primitives of Python\<close>

text \<open>
  The script imports its constants and one converter from psutil and socket, whose code
  is not part of the repository; the values of the address family constants differ
  between platforms. They are parameters of the model, together with the two float
  renderings the script uses and the iteration order of a Python set:
  \<^item> \<open>str_float x\<close> is \<^verbatim>\<open>str(x)\<close> for a float \<^verbatim>\<open>x\<close>;
  \<^item> \<open>str_round n x\<close> is \<^verbatim>\<open>str(round(x, n))\<close> where \<^verbatim>\<open>x\<close> is the float nearest to the
    rational \<open>x\<close>;
  \<^item> \<open>set_iter xs\<close> is the order in which \<^verbatim>\<open>for name in set(xs)\<close> visits the elements.
\<close>

record env =
  AF_INET :: int
  AF_INET6 :: int
  AF_LINK :: int
  NIC_DUPLEX_FULL :: int
  NIC_DUPLEX_HALF :: int
  NIC_DUPLEX_UNKNOWN :: int
  bytes2human :: "int \<Rightarrow> string"
  str_float :: "rat \<Rightarrow> string"
  str_round :: "nat \<Rightarrow> rat \<Rightarrow> string"
  set_iter :: "string list \<Rightarrow> string list"

definition str_opt_float :: "env \<Rightarrow> rat option \<Rightarrow> string" where
  "str_opt_float E x = (case x of None \<Rightarrow> ''None'' | Some q \<Rightarrow> str_float E q)"

text \<open>\<^verbatim>\<open>str(xs)\<close> for a list of floats.\<close>

definition str_float_list :: "env \<Rightarrow> rat list \<Rightarrow> string" where
  "str_float_list E xs = ''['' @ join_comma (map (str_float E) xs) @ '']''"

section \<open>Module constants\<close>

definition SECTION_SPAN :: string where
  "SECTION_SPAN = replicate 80 (CHR ''*'')"

definition SPACER :: string where
  "SPACER = ''*'' @ replicate 78 (CHR '' '') @ ''*''"

definition RAW_SPAN :: string where
  "RAW_SPAN = ''********************************************************************************''"

definition PROGRAM_NAME :: string where
  "PROGRAM_NAME = ''*            USING PSUTIL TO RETRIEVE USEFUL SYSTEM INFORMATION                *''"

definition CPU_INFO :: string where
  "CPU_INFO = ''*                               CPU INFORMATION                                *''"

definition MEMORY_INFO :: string where
  "MEMORY_INFO = ''*                            MEMORY INFORMATION                                *''"

definition DISK_INFO :: string where
  "DISK_INFO = ''*                              DISK INFORMATION                                *''"

definition NETWORK_INFO :: string where
  "NETWORK_INFO = ''*                           NETWORK INFORMATION                                *''"

definition CLIMATE_INFO :: string where
  "CLIMATE_INFO = ''*                           CLIMATE INFORMATION                                *''"

definition MEGABYTE :: int where
  "MEGABYTE = 1024 * 1024"

definition GIGABYTE :: int where
  "GIGABYTE = 1024 * 1024 * 1024"

text \<open>A dict literal: a later entry with the same key replaces an earlier one.\<close>

definition af_map :: "env \<Rightarrow> (int \<rightharpoonup> string)" where
  "af_map E = [AF_INET E \<mapsto> ''IPv4'', AF_INET6 E \<mapsto> ''IPv6'', AF_LINK E \<mapsto> ''MAC'']"

definition duplex_map :: "env \<Rightarrow> (int \<rightharpoonup> string)" where
  "duplex_map E =
     [NIC_DUPLEX_FULL E \<mapsto> ''full'', NIC_DUPLEX_HALF E \<mapsto> ''half'', NIC_DUPLEX_UNKNOWN E \<mapsto> ''?'']"

section \<open>Exceptions and standard output\<close>

text \<open>
  \<open>KeyError\<close> and \<open>TypeError\<close> are raised by the script's own expressions;
  \<open>LibraryError name\<close> stands for an exception raised inside a psutil or socket call.
\<close>

datatype error = KeyError | TypeError | LibraryError string

text \<open>
  A computation prints text and then either raises or returns: the pair of what it wrote
  to standard output and its outcome. Nothing in the script reads the output back, so
  the text written so far is not an input.
\<close>

type_synonym 'a io = "string \<times> (error + 'a)"

definition return_io :: "'a \<Rightarrow> 'a io" where
  "return_io x = ([], Inr x)"

definition bind_io :: "'a io \<Rightarrow> ('a \<Rightarrow> 'b io) \<Rightarrow> 'b io" where
  "bind_io m f =
     (case m of
        (out, Inl e) \<Rightarrow> (out, Inl e)
      | (out, Inr x) \<Rightarrow> (case f x of (out', r) \<Rightarrow> (out @ out', r)))"

definition then_io :: "unit io \<Rightarrow> 'a io \<Rightarrow> 'a io" where
  "then_io m k = bind_io m (\<lambda>_. k)"

text \<open>A block of statements, run in order; an exception ends the block.\<close>

fun seq_io :: "unit io list \<Rightarrow> unit io" where
  "seq_io [] = return_io ()"
| "seq_io (m # ms) = then_io m (seq_io ms)"

text \<open>A \<^verbatim>\<open>for\<close> loop over a list.\<close>

fun for_each :: "('a \<Rightarrow> unit io) \<Rightarrow> 'a list \<Rightarrow> unit io" where
  "for_each body [] = return_io ()"
| "for_each body (x # xs) = then_io (body x) (for_each body xs)"

definition line :: "string \<Rightarrow> string" where
  "line s = s @ [CHR 0x0A]"

text \<open>\<^verbatim>\<open>print(s)\<close> and \<^verbatim>\<open>print(s, end='')\<close>.\<close>

definition print :: "string \<Rightarrow> unit io" where
  "print s = (line s, Inr ())"

definition print_end_empty :: "string \<Rightarrow> unit io" where
  "print_end_empty s = (s, Inr ())"

text \<open>The outcome of a library call.\<close>

definition call :: "error + 'a \<Rightarrow> 'a io" where
  "call r = ([], r)"

text \<open>\<^verbatim>\<open>d[k]\<close> on a dict raises KeyError on a missing key; \<^verbatim>\<open>d.get(k, default)\<close> does not.\<close>

definition getitem :: "('k \<rightharpoonup> 'v) \<Rightarrow> 'k \<Rightarrow> 'v io" where
  "getitem d k = (case d k of None \<Rightarrow> ([], Inl KeyError) | Some v \<Rightarrow> return_io v)"

section \<open>Snapshots returned by psutil\<close>

text \<open>
  The named tuples of psutil, with the fields the script reads. \<open>svmem\<close> is read by
  index (1 is available, 2 is percent) and so is \<open>sdiskusage\<close> (0 is total, 3 is
  percent). Field names carry a prefix where two tuples share a name.
\<close>

record svmem =
  vm_total :: int
  vm_available :: int
  vm_percent :: rat

record sdiskusage =
  du_total :: int
  du_used :: int
  du_free :: int
  du_percent :: rat

record snicstats =
  isup :: bool
  duplex :: int
  speed :: int
  mtu :: int

record snetio =
  bytes_sent :: int
  bytes_recv :: int
  packets_sent :: int
  packets_recv :: int
  errin :: int
  errout :: int
  dropin :: int
  dropout :: int

record snicaddr =
  family :: int
  address :: string
  netmask :: "string option"
  broadcast :: "string option"
  ptp :: "string option"

record shwtemp =
  temp_label :: string
  temp_current :: rat
  high :: "rat option"
  critical :: "rat option"

record sfan =
  fan_label :: string
  fan_current :: int

record sbattery =
  percent :: rat
  secsleft :: int
  power_plugged :: bool

text \<open>
  What the operating system answers to each call the script makes, in the order of the
  calls: \<open>Inl\<close> when the call raises. A dict is an association list in the dict's order.
  The three sensor functions exist on some platforms only: \<open>None\<close> is
  \<^verbatim>\<open>hasattr(psutil, ...)\<close> being false.
\<close>

record provider =
  cpu_percent :: "error + rat"
  cpu_count_physical :: "error + int option"
  cpu_percent_percpu :: "error + rat list"
  cpu_count :: "error + int option"
  cpu_freq :: "error + (rat \<times> rat \<times> rat) option"
  virtual_memory :: "error + svmem"
  disk_usage :: "error + sdiskusage"
  gethostname :: "error + string"
  net_if_stats :: "error + (string \<times> snicstats) list"
  net_io_counters :: "error + (string \<times> snetio) list"
  net_if_addrs :: "error + (string \<times> snicaddr list) list"
  sensors_temperatures :: "(error + (string \<times> shwtemp list) list) option"
  sensors_fans :: "(error + (string \<times> sfan list) list) option"
  sensors_battery :: "(error + sbattery option) option"

section \<open>The report sections\<close>

definition print_program_header :: "unit io" where
  "print_program_header =
     seq_io [print SECTION_SPAN, print SPACER, print PROGRAM_NAME, print SPACER,
             print SECTION_SPAN]"

definition print_section_header :: "string \<Rightarrow> unit io" where
  "print_section_header name = seq_io [print name, print SECTION_SPAN]"

definition get_cpu_info :: "env \<Rightarrow> provider \<Rightarrow> unit io" where
  "get_cpu_info E P =
     then_io (print_section_header CPU_INFO)
    (bind_io (call (cpu_percent P)) (\<lambda>aggregate_cpu_usage.
     then_io (print (''Aggregate CPU usage: '' @ str_float E aggregate_cpu_usage @ ''%''))
    (bind_io (call (cpu_count_physical P)) (\<lambda>num_physical_cores.
     then_io (print (''Physical cores:  '' @ str_opt_int num_physical_cores))
    (bind_io (call (cpu_percent_percpu P)) (\<lambda>per_core_cpu_usage.
     then_io (print (''Individual core usage:  '' @ str_float_list E per_core_cpu_usage @ ''%''))
    (bind_io (call (cpu_count P)) (\<lambda>num_cores_w_ht.
     then_io (print (''Cores including HT:  '' @ str_opt_int num_cores_w_ht))
    (bind_io (call (cpu_freq P)) (\<lambda>cpu_freq_stats.
     case cpu_freq_stats of
       None \<Rightarrow> ([], Inl TypeError)
     | Some (f0, f1, f2) \<Rightarrow>
         (let current_MHz = int_of_float f0;
              min_MHz = int_of_float f1;
              max_MHz = int_of_float f2
          in seq_io
               [print (''Current, min and max CPU MHz: '' @ str_int current_MHz @ '', '' @
                       str_int min_MHz @ '', '' @ str_int max_MHz),
                print SECTION_SPAN])))))))))))"

definition get_memory_info :: "env \<Rightarrow> provider \<Rightarrow> unit io" where
  "get_memory_info E P =
     then_io (print_section_header MEMORY_INFO)
    (bind_io (call (virtual_memory P)) (\<lambda>mem_stats.
     seq_io
       [print (''Memory used:  '' @ str_float E (vm_percent mem_stats) @ ''%''),
        print (''Free memory (GB): '' @
               str_round E 1 (of_int (vm_available mem_stats) / of_int GIGABYTE)),
        print SECTION_SPAN]))"

definition get_disk_info :: "env \<Rightarrow> provider \<Rightarrow> unit io" where
  "get_disk_info E P =
     then_io (print_section_header DISK_INFO)
    (bind_io (call (disk_usage P)) (\<lambda>disk_usage_stats.
     seq_io
       [print (''Disk size (GB): '' @
               str_round E 1 (of_int (du_total disk_usage_stats) / of_int GIGABYTE)),
        print (''Percent disk used: '' @ str_float E (du_percent disk_usage_stats)),
        print SECTION_SPAN]))"

subsection \<open>Network\<close>

text \<open>\<^verbatim>\<open>af_map.get(code, code)\<close>: a label, or the code itself when it is not a key.\<close>

datatype family_label = Label string | Raw int

definition address_family_label :: "env \<Rightarrow> int \<Rightarrow> family_label" where
  "address_family_label E code = (case af_map E code of Some s \<Rightarrow> Label s | None \<Rightarrow> Raw code)"

text \<open>The format spec \<^verbatim>\<open>:4\<close> of line 139.\<close>

definition format_width4 :: "family_label \<Rightarrow> string" where
  "format_width4 v = (case v of Label s \<Rightarrow> ljust 4 s | Raw i \<Rightarrow> rjust 4 (str_int i))"

text \<open>\<^verbatim>\<open>duplex_map[code]\<close> of line 131.\<close>

definition duplex_label :: "env \<Rightarrow> int \<Rightarrow> string io" where
  "duplex_label E code = getitem (duplex_map E) code"

text \<open>The body of the loop over the addresses of an interface (lines 139 to 146). An
  optional field is truthy when it is a non-empty string.\<close>

definition print_if_present :: "string \<Rightarrow> string option \<Rightarrow> unit io" where
  "print_if_present name field =
     (case field of
        None \<Rightarrow> return_io ()
      | Some v \<Rightarrow> if v \<noteq> [] then print (name @ v) else return_io ())"

definition addr_body :: "env \<Rightarrow> snicaddr \<Rightarrow> unit io" where
  "addr_body E addr =
     seq_io
       [print_end_empty (''    '' @ format_width4 (address_family_label E (family addr))),
        print ('' address    : '' @ address addr),
        print_if_present ''         broadcast  : '' (broadcast addr),
        print_if_present ''         netmask    : '' (netmask addr),
        print_if_present ''         p2p        : '' (ptp addr)]"

text \<open>The body of the loop over the interfaces (lines 123 to 147).\<close>

definition nic_body ::
  "env \<Rightarrow> (string \<times> snicstats) list \<Rightarrow> (string \<times> snetio) list \<Rightarrow> string \<times> snicaddr list \<Rightarrow> unit io"
where
  "nic_body E stats io_counters item =
     (case item of (nic, addrs) \<Rightarrow>
      seq_io
        [print (nic @ '':''),
         (case map_of stats nic of
            None \<Rightarrow> return_io ()
          | Some st \<Rightarrow>
              then_io (print_end_empty ''    stats           :'')
                (let up = (if isup st then ''yes'' else ''no'')
                 in bind_io (duplex_label E (duplex st)) (\<lambda>d.
                      print ('' speed='' @ str_int (speed st) @ ''MB, duplex='' @ d @
                             '', mtu='' @ str_int (mtu st) @ '', up='' @ up)))),
         (case map_of io_counters nic of
            None \<Rightarrow> return_io ()
          | Some io \<Rightarrow>
              seq_io
                [print_end_empty ''    incoming        :'',
                 print ('' bytes='' @ bytes2human E (bytes_recv io) @
                        '', pkts='' @ str_int (packets_recv io) @
                        '', errs='' @ str_int (errin io) @
                        '', drops='' @ str_int (dropin io)),
                 print_end_empty ''    outgoing        :'',
                 print ('' bytes='' @ bytes2human E (bytes_sent io) @
                        '', pkts='' @ str_int (packets_sent io) @
                        '', errs='' @ str_int (errout io) @
                        '', drops='' @ str_int (dropout io))]),
         for_each (addr_body E) addrs,
         print []])"

definition get_network_info :: "env \<Rightarrow> provider \<Rightarrow> unit io" where
  "get_network_info E P =
     then_io (print_section_header NETWORK_INFO)
    (bind_io (call (gethostname P)) (\<lambda>host.
     then_io (print (''Host                : '' @ host))
    (bind_io (call (net_if_stats P)) (\<lambda>stats.
     bind_io (call (net_io_counters P)) (\<lambda>io_counters.
     bind_io (call (net_if_addrs P)) (\<lambda>addrs.
     seq_io [for_each (nic_body E stats io_counters) addrs, print SECTION_SPAN]))))))"

subsection \<open>Climate\<close>

text \<open>Lines 162 to 173: a sensor function the platform lacks counts as an empty answer.\<close>

definition read_temps :: "provider \<Rightarrow> error + (string \<times> shwtemp list) list" where
  "read_temps P = (case sensors_temperatures P of Some r \<Rightarrow> r | None \<Rightarrow> Inr [])"

definition read_fans :: "provider \<Rightarrow> error + (string \<times> sfan list) list" where
  "read_fans P = (case sensors_fans P of Some r \<Rightarrow> r | None \<Rightarrow> Inr [])"

definition read_battery :: "provider \<Rightarrow> error + sbattery option" where
  "read_battery P = (case sensors_battery P of Some r \<Rightarrow> r | None \<Rightarrow> Inr None)"

text \<open>The degree sign, as the two bytes of its UTF-8 encoding.\<close>

definition degree :: string where
  "degree = [CHR 0xC2, CHR 0xB0]"

text \<open>\<^verbatim>\<open>entry.label or name\<close>.\<close>

definition label_or :: "string \<Rightarrow> string \<Rightarrow> string" where
  "label_or label name = (if label \<noteq> [] then label else name)"

text \<open>The bodies of the two inner loops (lines 186 to 188 and 193 to 194).\<close>

definition temp_body :: "env \<Rightarrow> string \<Rightarrow> shwtemp \<Rightarrow> unit io" where
  "temp_body E name entry =
     print (''        '' @ ljust 20 (label_or (temp_label entry) name) @ '' '' @
            str_float E (temp_current entry) @ degree @ ''C (high='' @
            str_opt_float E (high entry) @ degree @ ''C, critical='' @
            str_opt_float E (critical entry) @ degree @ ''C)'')"

definition fan_body :: "string \<Rightarrow> sfan \<Rightarrow> unit io" where
  "fan_body name entry =
     print (''        '' @ ljust 20 (label_or (fan_label entry) name) @ '' '' @
            str_int (fan_current entry) @ '' RPM'')"

text \<open>The body of the loop over the sensor names (lines 181 to 194).\<close>

definition name_body ::
  "env \<Rightarrow> (string \<times> shwtemp list) list \<Rightarrow> (string \<times> sfan list) list \<Rightarrow> string \<Rightarrow> unit io"
where
  "name_body E temps fans name =
     seq_io
       [print name,
        (case map_of temps name of
           None \<Rightarrow> return_io ()
         | Some entries \<Rightarrow>
             seq_io [print ''    Temperatures:'', for_each (temp_body E name) entries]),
        (case map_of fans name of
           None \<Rightarrow> return_io ()
         | Some entries \<Rightarrow>
             seq_io [print ''    Fans:'', for_each (fan_body name) entries])]"

text \<open>The battery block (lines 197 to 207). A battery reading is a non-empty named
  tuple, so it counts as true whenever it is not \<^verbatim>\<open>None\<close>; a dict counts as true when
  it is not empty.\<close>

definition battery_block :: "env \<Rightarrow> sbattery option \<Rightarrow> unit io" where
  "battery_block E battery =
     (case battery of
        None \<Rightarrow> return_io ()
      | Some b \<Rightarrow>
          seq_io
            [print ''Battery:'',
             print (''    charge:     '' @ str_round E 2 (percent b) @ ''%''),
             (if power_plugged b then
                seq_io
                  [print (''    status:     '' @
                          (if percent b < 100 then ''charging'' else ''fully charged'')),
                   print ''    plugged in: yes'']
              else
                seq_io
                  [print (''    left:       '' @ secs2hours (secsleft b)),
                   print (''    status:     '' @ ''discharging''),
                   print ''    plugged in: no''])])"

definition get_hw_temperatures :: "env \<Rightarrow> provider \<Rightarrow> unit io" where
  "get_hw_temperatures E P =
     then_io (print_section_header CLIMATE_INFO)
    (bind_io (call (read_temps P)) (\<lambda>temps.
     bind_io (call (read_fans P)) (\<lambda>fans.
     bind_io (call (read_battery P)) (\<lambda>battery.
     if \<not> (temps \<noteq> [] \<or> fans \<noteq> [] \<or> battery \<noteq> None) then
       print ''Cannot read temperature, fans or battery info''
     else
       (let names = set_iter E (map fst temps @ map fst fans)
        in seq_io
             [for_each (name_body E temps fans) names,
              battery_block E battery,
              print SECTION_SPAN])))))"

subsection \<open>The script\<close>



section \<open>Reading a clock string back\<close>

text \<open>
  The inverse direction of \<open>secs2hours\<close>, for stating its round trip: a clock string is
  three fields of decimal digits separated by colons.
\<close>

definition digit_val :: "char \<Rightarrow> nat option" where
  "digit_val c = map_of (zip ''0123456789'' [0 ..< 10]) c"

fun parse_nat_from :: "nat \<Rightarrow> string \<Rightarrow> nat option" where
  "parse_nat_from a [] = Some a"
| "parse_nat_from a (c # cs) =
     (case digit_val c of None \<Rightarrow> None | Some d \<Rightarrow> parse_nat_from (a * 10 + d) cs)"

definition parse_nat :: "string \<Rightarrow> nat option" where
  "parse_nat s = (if s = [] then None else parse_nat_from 0 s)"

fun split_on :: "char \<Rightarrow> string \<Rightarrow> string list" where
  "split_on c [] = [[]]"
| "split_on c (x # xs) =
     (if x = c then [] # split_on c xs
      else (case split_on c xs of [] \<Rightarrow> [[x]] | w # ws \<Rightarrow> (x # w) # ws))"

definition parse_clock :: "string \<Rightarrow> (int \<times> int \<times> int) option" where
  "parse_clock s =
     (case split_on (CHR '':'') s of
        [h, m, t] \<Rightarrow>
          (case (parse_nat h, parse_nat m, parse_nat t) of
             (Some hh, Some mm, Some ss) \<Rightarrow> Some (int hh, int mm, int ss)
           | _ \<Rightarrow> None)
      | _ \<Rightarrow> None)"

section \<open>Presence of an optional address field\<close>

text \<open>A field of an address is present when it is neither \<^verbatim>\<open>None\<close> nor the empty string.\<close>

definition present :: "string option \<Rightarrow> bool" where
  "present field = (field \<noteq> None \<and> field \<noteq> Some [])"

section \<open>The byte-count humanizer of the specification\<close>

text \<open>
  Modelled from the spec: the body of \<^verbatim>\<open>bytes2human\<close>, which line 9 imports from
  \<^verbatim>\<open>psutil._common\<close> and which is not in the repository. The specification calls it
  humanizeBytes: a byte count \<open>n \<ge> 0\<close> is scaled by powers of 1024 to the unit at which
  the scaled value first drops below 1024 (the largest unit that does not exceed the
  count), and the scaled value is written with one decimal place, followed by the suffix
  of the unit. \<open>unit_order n\<close> is the order of that unit: 0 for bytes, 1 for KB, and so on
  without an upper end.
\<close>

fun unit_order :: "nat \<Rightarrow> nat" where
  "unit_order n = (if n < 1024 then 0 else Suc (unit_order (n div 1024)))"

declare unit_order.simps [simp del]

text \<open>Modelled from the spec: the scaled value, as the exact quotient by the unit.\<close>

definition scaled_value :: "nat \<Rightarrow> rat" where
  "scaled_value n = of_nat n / 1024 ^ unit_order n"

text \<open>Modelled from the spec: one decimal place. The specification does not name the
  rounding; it is taken to the nearest tenth, a tie going to the even tenth.\<close>

definition round_half_even :: "rat \<Rightarrow> int" where
  "round_half_even x =
     (let f = \<lfloor>x\<rfloor>; r = x - of_int f
      in if r < 1 / 2 then f else if 1 / 2 < r then f + 1 else if even f then f else f + 1)"

text \<open>Modelled from the spec: the scaled value in tenths, as it is written.\<close>

definition tenths :: "nat \<Rightarrow> nat" where
  "tenths n = nat (round_half_even (scaled_value n * 10))"

text \<open>Modelled from the spec: the suffixes the specification names, by order. It leaves the
  further ones open, so the suffix of each order is a parameter of \<open>humanizeBytes\<close>.\<close>

definition named_units :: "string list" where
  "named_units = [''B'', ''KB'', ''MB'', ''GB'', ''TB'']"

text \<open>Modelled from the spec: the humanized string, the written value and the suffix.\<close>

definition humanizeBytes :: "(nat \<Rightarrow> string) \<Rightarrow> nat \<Rightarrow> string" where
  "humanizeBytes suffix n =
     str_nat (tenths n div 10) @ ''.'' @ [digit_char (tenths n mod 10)] @ suffix (unit_order n)"

section \<open>A sample platform and sample answers of the operating system\<close>

text \<open>
  A Linux environment for evaluating the model: the constants of socket and psutil on
  Linux, \<open>remdups\<close> as the set order, the humanizer of the specification with its five
  named units, and a float rendering that prints one decimal place, which is what
  Python prints for the floats of the samples below (42.0, 44.5, 12.5). The samples
  have no traffic counters, so \<open>bytes2human\<close> is never called on them.
\<close>

definition sample_str_float :: "rat \<Rightarrow> string" where
  "sample_str_float x =
     str_int (int_of_float x) @ ''.'' @ str_nat (nat (int_of_float (\<bar>x\<bar> * 10)) mod 10)"

definition linux_env :: env where
  "linux_env =
     \<lparr>AF_INET = 2, AF_INET6 = 10, AF_LINK = 17,
      NIC_DUPLEX_FULL = 2, NIC_DUPLEX_HALF = 1, NIC_DUPLEX_UNKNOWN = 0,
      bytes2human = (\<lambda>n. humanizeBytes (\<lambda>k. named_units ! k) (nat n)),
      str_float = sample_str_float,
      str_round = (\<lambda>n. sample_str_float),
      set_iter = remdups\<rparr>"

text \<open>
  A sample machine: two cores with hyper-threading off, 8 GB of 16 GB available, a 1 GB
  disk, the loopback interface, one temperature sensor without a label and a battery on
  mains power. Variants of it override single answers.
\<close>

definition sample_provider :: provider where
  "sample_provider =
     \<lparr>cpu_percent = Inr 42,
      cpu_count_physical = Inr (Some 2),
      cpu_percent_percpu = Inr [40, 44.5],
      cpu_count = Inr (Some 2),
      cpu_freq = Inr (Some (2400, 800, 3600)),
      virtual_memory =
        Inr \<lparr>vm_total = 17179869184, vm_available = 8589934592, vm_percent = 50\<rparr>,
      disk_usage =
        Inr \<lparr>du_total = 1073741824, du_used = 134217728, du_free = 939524096,
             du_percent = 12.5\<rparr>,
      gethostname = Inr ''host'',
      net_if_stats = Inr [(''lo'', \<lparr>isup = True, duplex = 0, speed = 0, mtu = 65536\<rparr>)],
      net_io_counters = Inr [],
      net_if_addrs =
        Inr [(''lo'', [\<lparr>family = 2, address = ''127.0.0.1'', netmask = Some ''255.0.0.0'',
                        broadcast = None, ptp = None\<rparr>])],
      sensors_temperatures =
        Some (Inr [(''coretemp'', [\<lparr>temp_label = [], temp_current = 45, high = Some 100,
                                     critical = None\<rparr>])]),
      sensors_fans = None,
      sensors_battery =
        Some (Inr (Some \<lparr>percent = 100, secsleft = - 2, power_plugged = True\<rparr>))\<rparr>"

section \<open>The clock format of secs2hours\<close>

lemma str_nat_lt10: "n < 10 \<Longrightarrow> str_nat n = [digit_char n]"
  by (simp add: str_nat.simps)

lemma str_nat_two:
  "10 \<le> n \<Longrightarrow> n < 100 \<Longrightarrow> str_nat n = [digit_char (n div 10), digit_char (n mod 10)]"
  by (subst str_nat.simps) (simp add: str_nat_lt10)

lemma digit_char_0: "digit_char 0 = CHR ''0''"
  by (simp add: digit_char_def)

lemma fmt_02d_two:
  assumes "0 \<le> m" "m < 100"
  shows "fmt_02d m = [digit_char (nat m div 10), digit_char (nat m mod 10)]"
proof (cases "nat m < 10")
  case True
  then show ?thesis using assms by (simp add: fmt_02d_def str_nat_lt10 digit_char_0)
next
  case False
  then have "10 \<le> nat m" "nat m < 100" using assms by auto
  then show ?thesis using assms by (simp add: fmt_02d_def str_nat_two)
qed

lemma secs2hours_unfold:
  "secs2hours s =
     str_int (s div 3600) @ '':'' @ fmt_02d (s div 60 mod 60) @ '':'' @ fmt_02d (s mod 60)"
proof -
  have "s div 60 div 60 = s div 3600" by (simp add: div_mult2_eq[symmetric])
  then show ?thesis by (simp add: secs2hours_def divmod_def)
qed

lemma secs2hours_shape:
  "secs2hours s =
     str_int (s div 3600) @ '':'' @
     [digit_char (nat (s div 60 mod 60) div 10), digit_char (nat (s div 60 mod 60) mod 10)] @
     '':'' @
     [digit_char (nat (s mod 60) div 10), digit_char (nat (s mod 60) mod 10)]"
proof -
  have a: "fmt_02d (s div 60 mod 60) =
      [digit_char (nat (s div 60 mod 60) div 10), digit_char (nat (s div 60 mod 60) mod 10)]"
    by (rule fmt_02d_two) simp_all
  have b: "fmt_02d (s mod 60) =
      [digit_char (nat (s mod 60) div 10), digit_char (nat (s mod 60) mod 10)]"
    by (rule fmt_02d_two) simp_all
  show ?thesis using a b by (simp add: secs2hours_unfold)
qed

text \<open>
  C4. \<open>secs2hours\<close> writes H:MM:SS by integer division: the hours are the decimal
  rendering of \<open>s div 3600\<close>, of whatever width, and the minutes and the seconds are
  two digits each, for every integer \<open>s\<close>. It maps 3661 to 1:01:01, 59 to 0:00:59
  and 3600 to 1:00:00.
\<close>

theorem secs2hours_clock_format:
  "secs2hours s =
     str_int (s div 3600) @ '':'' @
     [digit_char (nat (s div 60 mod 60) div 10), digit_char (nat (s div 60 mod 60) mod 10)] @
     '':'' @
     [digit_char (nat (s mod 60) div 10), digit_char (nat (s mod 60) mod 10)]
   \<and> secs2hours 3661 = ''1:01:01''
   \<and> secs2hours 59 = ''0:00:59''
   \<and> secs2hours 3600 = ''1:00:00''"
proof -
  have c: "secs2hours 3661 = ''1:01:01''" by code_simp
  have d: "secs2hours 59 = ''0:00:59''" by code_simp
  have e: "secs2hours 3600 = ''1:00:00''" by code_simp
  show ?thesis using secs2hours_shape[of s] c d e by simp
qed

section \<open>Reading the clock string back\<close>

lemma lt10_cases:
  "(d::nat) < 10 \<Longrightarrow> d = 0 \<or> d = 1 \<or> d = 2 \<or> d = 3 \<or> d = 4 \<or> d = 5 \<or> d = 6 \<or> d = 7 \<or> d = 8 \<or> d = 9"
  by arith

lemma digit_val_digit_char:
  assumes "d < 10"
  shows "digit_val (digit_char d) = Some d"
  using lt10_cases[OF assms] by (elim disjE; simp add: digit_val_def digit_char_def upt_conv_Cons)

lemma digit_char_not_colon:
  assumes "d < 10"
  shows "digit_char d \<noteq> CHR '':''"
  using lt10_cases[OF assms] by (elim disjE; simp add: digit_char_def)

lemma parse_nat_from_append:
  "parse_nat_from a (xs @ ys) =
     (case parse_nat_from a xs of None \<Rightarrow> None | Some b \<Rightarrow> parse_nat_from b ys)"
  by (induction xs arbitrary: a) (auto split: option.splits)

lemma parse_nat_from_str_nat: "parse_nat_from 0 (str_nat n) = Some n"
proof (induction n rule: str_nat.induct)
  case (1 n)
  show ?case
  proof (cases "n < 10")
    case True
    then show ?thesis by (simp add: str_nat_lt10 digit_val_digit_char)
  next
    case False
    then have ih: "parse_nat_from 0 (str_nat (n div 10)) = Some (n div 10)" using 1 by simp
    have "str_nat n = str_nat (n div 10) @ [digit_char (n mod 10)]"
      using False by (subst str_nat.simps) simp
    then show ?thesis by (simp add: parse_nat_from_append ih digit_val_digit_char)
  qed
qed

lemma str_nat_not_Nil: "str_nat n \<noteq> []"
  by (subst str_nat.simps) simp

lemma parse_nat_str_nat: "parse_nat (str_nat n) = Some n"
  by (simp add: parse_nat_def str_nat_not_Nil parse_nat_from_str_nat)

lemma colon_notin_str_nat: "CHR '':'' \<notin> set (str_nat n)"
proof (induction n rule: str_nat.induct)
  case (1 n)
  show ?case
  proof (cases "n < 10")
    case True
    then show ?thesis using digit_char_not_colon[of n] by (simp add: str_nat_lt10)
  next
    case False
    have "str_nat n = str_nat (n div 10) @ [digit_char (n mod 10)]"
      using False by (subst str_nat.simps) simp
    then show ?thesis using 1 False digit_char_not_colon[of "n mod 10"] by simp
  qed
qed

lemma split_on_not_Nil: "split_on c xs \<noteq> []"
  by (induction xs) (auto split: list.splits)

lemma split_on_no_sep: "c \<notin> set xs \<Longrightarrow> split_on c xs = [xs]"
  by (induction xs) auto

lemma split_on_append_sep: "c \<notin> set xs \<Longrightarrow> split_on c (xs @ c # ys) = xs # split_on c ys"
  by (induction xs) auto

lemma parse_two_digits:
  "a < 10 \<Longrightarrow> b < 10 \<Longrightarrow> parse_nat [digit_char a, digit_char b] = Some (a * 10 + b)"
  by (simp add: parse_nat_def digit_val_digit_char)

lemma parse_clock_fields:
  assumes "a < 10" "b < 10" "c < 10" "d < 10"
  shows "parse_clock (str_nat h @ '':'' @ [digit_char a, digit_char b] @ '':'' @ [digit_char c, digit_char d])
         = Some (int h, int (a * 10 + b), int (c * 10 + d))"
proof -
  have "split_on (CHR '':'') (str_nat h @ CHR '':'' # ([digit_char a, digit_char b] @ CHR '':'' # [digit_char c, digit_char d]))
        = [str_nat h, [digit_char a, digit_char b], [digit_char c, digit_char d]]"
    using assms digit_char_not_colon[of a] digit_char_not_colon[of b] digit_char_not_colon[of c] digit_char_not_colon[of d]
    by (simp add: split_on_append_sep colon_notin_str_nat)
  then show ?thesis
    using assms by (simp add: parse_clock_def parse_nat_str_nat parse_two_digits)
qed

text \<open>
  C10. For every non-negative number of seconds \<open>s\<close>, the output of \<open>secs2hours\<close>
  reads back as three integers \<open>hh\<close>, \<open>mm\<close>, \<open>ss\<close> with \<open>mm\<close> and \<open>ss\<close> in 0..59
  and \<open>hh * 3600 + mm * 60 + ss = s\<close>. On the negative value psutil uses for an unknown
  remaining time the output is -1:59:59, which is no clock string.
\<close>

theorem secs2hours_round_trip:
  "(0 \<le> s \<longrightarrow>
      (\<exists>hh mm ss. parse_clock (secs2hours s) = Some (hh, mm, ss)
         \<and> 0 \<le> hh \<and> 0 \<le> mm \<and> mm < 60 \<and> 0 \<le> ss \<and> ss < 60
         \<and> hh * 3600 + mm * 60 + ss = s))
   \<and> secs2hours (- 1) = ''-1:59:59''
   \<and> parse_clock (secs2hours (- 1)) = None"
proof -
  have pos: "\<exists>hh mm ss. parse_clock (secs2hours s) = Some (hh, mm, ss)
         \<and> 0 \<le> hh \<and> 0 \<le> mm \<and> mm < 60 \<and> 0 \<le> ss \<and> ss < 60
         \<and> hh * 3600 + mm * 60 + ss = s" if nonneg: "0 \<le> s"
  proof -
    define m where "m = nat (s div 60 mod 60)"
    define t where "t = nat (s mod 60)"
    define h where "h = nat (s div 3600)"
    have hpos: "0 \<le> s div 3600" using nonneg by (simp add: pos_imp_zdiv_nonneg_iff)
    have shape: "secs2hours s = str_nat h @ '':'' @ [digit_char (m div 10), digit_char (m mod 10)] @ '':'' @ [digit_char (t div 10), digit_char (t mod 10)]"
      using secs2hours_shape[of s] hpos by (simp add: m_def t_def h_def str_int_def)
    have m60: "m < 60" and t60: "t < 60" by (simp_all add: m_def t_def)
    have parse: "parse_clock (secs2hours s) = Some (int h, int (m div 10 * 10 + m mod 10), int (t div 10 * 10 + t mod 10))"
      unfolding shape using m60 t60 by (intro parse_clock_fields) simp_all
    have mm: "int (m div 10 * 10 + m mod 10) = s div 60 mod 60" by (simp add: m_def)
    have tt: "int (t div 10 * 10 + t mod 10) = s mod 60" by (simp add: t_def)
    have hh: "int h = s div 3600" using hpos by (simp add: h_def)
    have "s div 3600 = s div 60 div 60" by (simp add: div_mult2_eq[symmetric])
    then have sum: "(s div 3600) * 3600 + (s div 60 mod 60) * 60 + s mod 60 = s"
      by presburger
    show ?thesis using parse mm tt hh sum by simp
  qed
  have neg: "secs2hours (- 1) = ''-1:59:59''" by code_simp
  have negp: "parse_clock ''-1:59:59'' = None" by code_simp
  show ?thesis using pos neg negp by simp
qed

theorem secs2hours_round_trip_witness:
  "(0::int) \<le> 3661 \<and> parse_clock (secs2hours 3661) = Some (1, 1, 1) \<and> (1::int) * 3600 + 1 * 60 + 1 = 3661"
proof -
  have "\<exists>hh mm ss. parse_clock (secs2hours 3661) = Some (hh, mm, ss)
         \<and> 0 \<le> hh \<and> 0 \<le> mm \<and> mm < 60 \<and> 0 \<le> ss \<and> ss < 60
         \<and> hh * 3600 + mm * 60 + ss = 3661"
    using secs2hours_round_trip[of 3661] by simp
  moreover have "parse_clock (secs2hours 3661) = Some (1, 1, 1)" by code_simp
  ultimately show ?thesis by simp
qed

section \<open>The two label tables\<close>

lemma duplex_label_cases:
  "duplex_label E code =
     (if code = NIC_DUPLEX_UNKNOWN E then return_io ''?''
      else if code = NIC_DUPLEX_HALF E then return_io ''half''
      else if code = NIC_DUPLEX_FULL E then return_io ''full''
      else ([], Inl KeyError))"
  by (simp add: duplex_label_def getitem_def duplex_map_def)

text \<open>
  C3, as amended. \<open>duplex_label\<close> returns one of full, half and ? exactly on the three
  duplex codes of psutil, and raises KeyError on every other code.
\<close>

theorem duplex_label_known_codes_only:
  "((\<exists>l. l \<in> {''full'', ''half'', ''?''} \<and> duplex_label E code = return_io l)
      = (code \<in> {NIC_DUPLEX_FULL E, NIC_DUPLEX_HALF E, NIC_DUPLEX_UNKNOWN E}))
   \<and> ((duplex_label E code = ([], Inl KeyError))
      = (code \<notin> {NIC_DUPLEX_FULL E, NIC_DUPLEX_HALF E, NIC_DUPLEX_UNKNOWN E}))"
  by (auto simp: duplex_label_cases return_io_def)

theorem duplex_label_raises_on_unknown_code:
  "duplex_label linux_env 3 = ([], Inl KeyError)"
  by (simp add: duplex_label_cases linux_env_def)

text \<open>
  C9. Where the three family constants are distinct, as they are on every platform,
  \<open>address_family_label\<close> maps AF_INET to IPv4, AF_INET6 to IPv6 and AF_LINK to MAC;
  every other code comes back as it is.
\<close>

theorem address_family_label_table:
  assumes "distinct [AF_INET E, AF_INET6 E, AF_LINK E]"
  shows "address_family_label E (AF_INET E) = Label ''IPv4''
       \<and> address_family_label E (AF_INET6 E) = Label ''IPv6''
       \<and> address_family_label E (AF_LINK E) = Label ''MAC''
       \<and> (\<forall>code. code \<notin> {AF_INET E, AF_INET6 E, AF_LINK E}
             \<longrightarrow> address_family_label E code = Raw code)"
  using assms by (auto simp: address_family_label_def af_map_def)

theorem address_family_label_table_witness:
  "distinct [AF_INET linux_env, AF_INET6 linux_env, AF_LINK linux_env]
   \<and> address_family_label linux_env 2 = Label ''IPv4''
   \<and> address_family_label linux_env 10 = Label ''IPv6''
   \<and> address_family_label linux_env 17 = Label ''MAC''
   \<and> address_family_label linux_env 99 = Raw 99"
proof -
  have d: "distinct [AF_INET linux_env, AF_INET6 linux_env, AF_LINK linux_env]"
    by (simp add: linux_env_def)
  have v: "AF_INET linux_env = 2" "AF_INET6 linux_env = 10" "AF_LINK linux_env = 17"
    by (simp_all add: linux_env_def)
  show ?thesis using d address_family_label_table[OF d] by (simp add: v)
qed

section \<open>Sequencing of output\<close>

lemma then_io_ok: "then_io (out, Inr ()) k = (out @ fst k, snd k)"
  by (simp add: then_io_def bind_io_def split: prod.splits)

lemma then_io_raise: "then_io (out, Inl e) k = (out, Inl e)"
  by (simp add: then_io_def bind_io_def)

lemma then_io_print: "then_io (print s) k = (line s @ fst k, snd k)"
  by (simp add: print_def then_io_ok)

lemma then_io_print_end_empty: "then_io (print_end_empty s) k = (s @ fst k, snd k)"
  by (simp add: print_end_empty_def then_io_ok)

lemma then_io_return: "then_io (return_io ()) k = k"
  by (simp add: return_io_def then_io_ok)

lemma bind_io_call_Inr: "bind_io (call (Inr x)) f = f x"
  by (simp add: bind_io_def call_def split: prod.splits)

lemma bind_io_call_Inl: "bind_io (call (Inl e)) f = ([], Inl e)"
  by (simp add: bind_io_def call_def)

lemma fst_return_io: "fst (return_io x) = []" and snd_return_io: "snd (return_io x) = Inr x"
  by (simp_all add: return_io_def)

lemma fst_print: "fst (print s) = line s" and snd_print: "snd (print s) = Inr ()"
  by (simp_all add: print_def)

lemma then_io_snd_ok: "snd m = Inr () \<Longrightarrow> then_io m k = (fst m @ fst k, snd k)"
  by (cases m) (simp add: then_io_ok)

lemma print_if_present_eq:
  "print_if_present name field = ((if present field then line (name @ the field) else []), Inr ())"
  by (cases field) (simp_all add: print_if_present_def present_def return_io_def print_def)


text \<open>The loop over the addresses of an interface writes the text of each address in
  turn and never raises.\<close>

lemma snd_addr_body: "snd (addr_body E addr) = Inr ()"
  by (simp add: addr_body_def then_io_print then_io_print_end_empty print_if_present_eq
      then_io_ok fst_return_io snd_return_io)

lemma addrs_loop_writes_each:
  "for_each (addr_body E) addrs = (concat (map (\<lambda>a. fst (addr_body E a)) addrs), Inr ())"
  by (induction addrs) (simp_all add: return_io_def then_io_snd_ok snd_addr_body)

section \<open>The climate section\<close>

lemma snd_seq_io_prints: "\<forall>m \<in> set ms. snd m = Inr () \<Longrightarrow> snd (seq_io ms) = Inr ()"
  by (induction ms) (simp_all add: snd_return_io then_io_snd_ok)


lemma snd_for_each_ok: "(\<And>x. snd (body x) = Inr ()) \<Longrightarrow> snd (for_each body xs) = Inr ()"
  by (induction xs) (simp_all add: snd_return_io then_io_snd_ok)

lemma snd_temp_body: "snd (temp_body E name entry) = Inr ()"
  by (simp add: temp_body_def snd_print)

lemma snd_fan_body: "snd (fan_body name entry) = Inr ()"
  by (simp add: fan_body_def snd_print)

lemma snd_temps_loop: "snd (for_each (temp_body E name) entries) = Inr ()"
  by (rule snd_for_each_ok) (rule snd_temp_body)

lemma snd_fans_loop: "snd (for_each (fan_body name) entries) = Inr ()"
  by (rule snd_for_each_ok) (rule snd_fan_body)

lemma snd_name_body: "snd (name_body E temps fans name) = Inr ()"
  unfolding name_body_def
  by (rule snd_seq_io_prints)
     (auto simp: snd_print snd_return_io snd_temps_loop snd_fans_loop
           then_io_print then_io_snd_ok split: option.splits)

lemma snd_names_loop: "snd (for_each (name_body E temps fans) names) = Inr ()"
  by (rule snd_for_each_ok) (rule snd_name_body)

lemma battery_block_Some:
  "battery_block E (Some b) =
     (line ''Battery:'' @
      line (''    charge:     '' @ str_round E 2 (percent b) @ ''%'') @
      (if power_plugged b then
         line (''    status:     '' @ (if percent b < 100 then ''charging'' else ''fully charged'')) @
         line ''    plugged in: yes''
       else
         line (''    left:       '' @ secs2hours (secsleft b)) @
         line ''    status:     discharging'' @
         line ''    plugged in: no''),
      Inr ())"
  by (simp add: battery_block_def then_io_print then_io_ok fst_return_io snd_return_io)

lemma snd_battery_block: "snd (battery_block E battery) = Inr ()"
  by (cases battery) (simp_all add: battery_block_Some, simp add: battery_block_def snd_return_io)

lemma print_section_header_eq: "print_section_header name = (line name @ line SECTION_SPAN, Inr ())"
  by (simp add: print_section_header_def then_io_print fst_return_io snd_return_io)

lemma climate_no_data:
  assumes "read_temps P = Inr []" "read_fans P = Inr []" "read_battery P = Inr None"
  shows "get_hw_temperatures E P =
           (line CLIMATE_INFO @ line SECTION_SPAN @
            line ''Cannot read temperature, fans or battery info'', Inr ())"
  using assms
  by (simp add: get_hw_temperatures_def print_section_header_eq then_io_ok bind_io_call_Inr
      fst_print snd_print)

lemma climate_with_data:
  assumes "read_temps P = Inr temps" "read_fans P = Inr fans" "read_battery P = Inr battery"
    and "temps \<noteq> [] \<or> fans \<noteq> [] \<or> battery \<noteq> None"
  shows "get_hw_temperatures E P =
           (line CLIMATE_INFO @ line SECTION_SPAN @
            fst (for_each (name_body E temps fans) (set_iter E (map fst temps @ map fst fans))) @
            fst (battery_block E battery) @
            line SECTION_SPAN, Inr ())"
proof -
  let ?loop = "for_each (name_body E temps fans) (set_iter E (map fst temps @ map fst fans))"
  have body: "seq_io [?loop, battery_block E battery, print SECTION_SPAN] =
      (fst ?loop @ fst (battery_block E battery) @ line SECTION_SPAN, Inr ())"
    by (simp add: then_io_snd_ok snd_names_loop snd_battery_block fst_print snd_print
        fst_return_io snd_return_io)
  show ?thesis
    using assms body
    by (auto simp add: get_hw_temperatures_def print_section_header_eq then_io_ok
        bind_io_call_Inr Let_def)
qed


lemma line_span_differs:
  "xs @ line SECTION_SPAN \<noteq> ys @ line ''Cannot read temperature, fans or battery info''"
proof
  assume "xs @ line SECTION_SPAN = ys @ line ''Cannot read temperature, fans or battery info''"
  then have "last (butlast (xs @ line SECTION_SPAN)) =
             last (butlast (ys @ line ''Cannot read temperature, fans or battery info''))"
    by simp
  then show False
    by (simp add: line_def SECTION_SPAN_def butlast_append)
qed


lemma sample_str_float_100: "sample_str_float 100 = ''100.0''"
  by code_simp

lemma sample_battery_only_reads:
  "read_temps (sample_provider\<lparr>sensors_temperatures := None\<rparr>) = Inr []"
  "read_fans (sample_provider\<lparr>sensors_temperatures := None\<rparr>) = Inr []"
  "read_battery (sample_provider\<lparr>sensors_temperatures := None\<rparr>) =
     Inr (Some \<lparr>percent = 100, secsleft = - 2, power_plugged = True\<rparr>)"
  by (simp_all add: read_temps_def read_fans_def read_battery_def sample_provider_def)


section \<open>The battery block\<close>

text \<open>
  C7. When the battery reading is present and its percent is within the data model's
  bound of 100, the climate section writes, after the sensor groups, the line Battery:
  and the charge (the percent rounded to 2 decimals, as Python prints it). On mains
  power it writes a status that is charging exactly when percent < 100 and fully
  charged exactly when percent = 100, then plugged in: yes. Otherwise it writes the
  remaining time through \<open>secs2hours\<close>, the status discharging and plugged in: no. The
  closing banner follows.
\<close>

theorem climate_battery_report:
  assumes "read_temps P = Inr temps" and "read_fans P = Inr fans"
    and "read_battery P = Inr (Some b)" and "percent b \<le> 100"
  shows "\<exists>status.
           get_hw_temperatures E P =
             (line CLIMATE_INFO @ line SECTION_SPAN @
              fst (for_each (name_body E temps fans)
                     (set_iter E (map fst temps @ map fst fans))) @
              line ''Battery:'' @
              line (''    charge:     '' @ str_round E 2 (percent b) @ ''%'') @
              (if power_plugged b then
                 line (''    status:     '' @ status) @
                 line ''    plugged in: yes''
               else
                 line (''    left:       '' @ secs2hours (secsleft b)) @
                 line ''    status:     discharging'' @
                 line ''    plugged in: no'') @
              line SECTION_SPAN, Inr ())
           \<and> (status = ''charging'') = (percent b < 100)
           \<and> (status = ''fully charged'') = (percent b = 100)"
proof -
  define status where "status = (if percent b < 100 then ''charging'' else ''fully charged'')"
  have s1: "(status = ''charging'') = (percent b < 100)"
    by (simp add: status_def)
  have s2: "(status = ''fully charged'') = (percent b = 100)"
    using assms(4) by (auto simp: status_def)
  have "get_hw_temperatures E P =
           (line CLIMATE_INFO @ line SECTION_SPAN @
            fst (for_each (name_body E temps fans) (set_iter E (map fst temps @ map fst fans))) @
            fst (battery_block E (Some b)) @
            line SECTION_SPAN, Inr ())"
    using assms(1-3) by (intro climate_with_data) simp_all
  then have "get_hw_temperatures E P =
             (line CLIMATE_INFO @ line SECTION_SPAN @
              fst (for_each (name_body E temps fans)
                     (set_iter E (map fst temps @ map fst fans))) @
              line ''Battery:'' @
              line (''    charge:     '' @ str_round E 2 (percent b) @ ''%'') @
              (if power_plugged b then
                 line (''    status:     '' @ status) @
                 line ''    plugged in: yes''
               else
                 line (''    left:       '' @ secs2hours (secsleft b)) @
                 line ''    status:     discharging'' @
                 line ''    plugged in: no'') @
              line SECTION_SPAN, Inr ())"
    by (simp add: battery_block_Some status_def)
  with s1 s2 show ?thesis by blast
qed

lemma sample_str_float_55_5: "sample_str_float (111 / 2) = ''55.5''"
  by code_simp

lemma secs2hours_3661: "secs2hours 3661 = ''1:01:01''"
  by code_simp

lemma sample_discharging_reads:
  "read_temps (sample_provider\<lparr>sensors_temperatures := None, sensors_battery :=
      Some (Inr (Some \<lparr>percent = 111 / 2, secsleft = 3661, power_plugged = False\<rparr>))\<rparr>) = Inr []"
  "read_fans (sample_provider\<lparr>sensors_temperatures := None, sensors_battery :=
      Some (Inr (Some \<lparr>percent = 111 / 2, secsleft = 3661, power_plugged = False\<rparr>))\<rparr>) = Inr []"
  "read_battery (sample_provider\<lparr>sensors_temperatures := None, sensors_battery :=
      Some (Inr (Some \<lparr>percent = 111 / 2, secsleft = 3661, power_plugged = False\<rparr>))\<rparr>) =
     Inr (Some \<lparr>percent = 111 / 2, secsleft = 3661, power_plugged = False\<rparr>)"
  by (simp_all add: read_temps_def read_fans_def read_battery_def sample_provider_def)

theorem climate_battery_report_witness:
  "get_hw_temperatures linux_env (sample_provider\<lparr>sensors_temperatures := None\<rparr>) =
       (line CLIMATE_INFO @ line SECTION_SPAN @
        line ''Battery:'' @
        line ''    charge:     100.0%'' @
        line ''    status:     fully charged'' @
        line ''    plugged in: yes'' @
        line SECTION_SPAN, Inr ())
   \<and> get_hw_temperatures linux_env
        (sample_provider\<lparr>sensors_temperatures := None, sensors_battery :=
           Some (Inr (Some \<lparr>percent = 111 / 2, secsleft = 3661, power_plugged = False\<rparr>))\<rparr>) =
       (line CLIMATE_INFO @ line SECTION_SPAN @
        line ''Battery:'' @
        line ''    charge:     55.5%'' @
        line ''    left:       1:01:01'' @
        line ''    status:     discharging'' @
        line ''    plugged in: no'' @
        line SECTION_SPAN, Inr ())"
proof -
  let ?P1 = "sample_provider\<lparr>sensors_temperatures := None\<rparr>"
  let ?b1 = "\<lparr>percent = 100, secsleft = - 2, power_plugged = True\<rparr>"
  let ?b2 = "\<lparr>percent = 111 / 2, secsleft = 3661, power_plugged = False\<rparr>"
  let ?P2 = "sample_provider\<lparr>sensors_temperatures := None, sensors_battery :=
           Some (Inr (Some ?b2))\<rparr>"
  have names: "set_iter linux_env [] = []"
    by (simp add: linux_env_def)
  have charge1: "str_round linux_env 2 100 = ''100.0''"
    by (simp add: linux_env_def sample_str_float_100)
  have charge2: "str_round linux_env 2 (111 / 2) = ''55.5''"
    by (simp add: linux_env_def sample_str_float_55_5)
  have le1: "percent ?b1 \<le> 100" by simp
  have le2: "percent ?b2 \<le> 100" by simp
  from climate_battery_report[OF sample_battery_only_reads le1, of linux_env]
  have first: "get_hw_temperatures linux_env ?P1 =
       (line CLIMATE_INFO @ line SECTION_SPAN @
        line ''Battery:'' @
        line ''    charge:     100.0%'' @
        line ''    status:     fully charged'' @
        line ''    plugged in: yes'' @
        line SECTION_SPAN, Inr ())"
    by (auto simp: names charge1 fst_return_io)
  from climate_battery_report[OF sample_discharging_reads le2, of linux_env]
  have second: "get_hw_temperatures linux_env ?P2 =
       (line CLIMATE_INFO @ line SECTION_SPAN @
        line ''Battery:'' @
        line ''    charge:     55.5%'' @
        line ''    left:       1:01:01'' @
        line ''    status:     discharging'' @
        line ''    plugged in: no'' @
        line SECTION_SPAN, Inr ())"
    by (auto simp: names charge2 fst_return_io secs2hours_3661)
  from first second show ?thesis by simp
qed

text \<open>
  C6. With no temperature, fan or battery data the climate section writes its header
  and the line "Cannot read temperature, fans or battery info" and returns at once: its
  output does not end with the banner line that closes every other section.
\<close>

theorem climate_no_data_lacks_closing_banner:
  "get_hw_temperatures linux_env
     (sample_provider\<lparr>sensors_temperatures := None, sensors_fans := None,
                       sensors_battery := None\<rparr>) =
     (line CLIMATE_INFO @ line SECTION_SPAN @
      line ''Cannot read temperature, fans or battery info'', Inr ())
   \<and> \<not> (\<exists>pre. fst (get_hw_temperatures linux_env
                      (sample_provider\<lparr>sensors_temperatures := None, sensors_fans := None,
                                        sensors_battery := None\<rparr>))
               = pre @ line SECTION_SPAN)"
proof -
  let ?P = "sample_provider\<lparr>sensors_temperatures := None, sensors_fans := None,
                            sensors_battery := None\<rparr>"
  have out: "get_hw_temperatures linux_env ?P =
     (line CLIMATE_INFO @ line SECTION_SPAN @
      line ''Cannot read temperature, fans or battery info'', Inr ())"
    by (rule climate_no_data) (simp_all add: read_temps_def read_fans_def read_battery_def)
  have "fst (get_hw_temperatures linux_env ?P) \<noteq> pre @ line SECTION_SPAN" for pre
    using line_span_differs[of pre "line CLIMATE_INFO @ line SECTION_SPAN"] out by simp
  with out show ?thesis by blast
qed

theorem climate_no_data_lacks_closing_banner_witness:
  "read_temps (sample_provider\<lparr>sensors_temperatures := None, sensors_fans := None,
                                sensors_battery := None\<rparr>) = Inr []
   \<and> read_fans (sample_provider\<lparr>sensors_temperatures := None, sensors_fans := None,
                                  sensors_battery := None\<rparr>) = Inr []
   \<and> read_battery (sample_provider\<lparr>sensors_temperatures := None, sensors_fans := None,
                                     sensors_battery := None\<rparr>) = Inr None
   \<and> fst (get_hw_temperatures linux_env
              (sample_provider\<lparr>sensors_temperatures := None, sensors_fans := None,
                                sensors_battery := None\<rparr>)) =
       line CLIMATE_INFO @ line SECTION_SPAN @
       line ''Cannot read temperature, fans or battery info''
   \<and> snd (get_hw_temperatures linux_env
              (sample_provider\<lparr>sensors_temperatures := None, sensors_fans := None,
                                sensors_battery := None\<rparr>)) = Inr ()"
  using climate_no_data_lacks_closing_banner
  by (simp add: read_temps_def read_fans_def read_battery_def)

section \<open>The script stops at the first exception\<close>






lemma print_program_header_eq:
  "print_program_header =
     (line SECTION_SPAN @ line SPACER @ line PROGRAM_NAME @ line SPACER @ line SECTION_SPAN,
      Inr ())"
  by (simp add: print_program_header_def then_io_print fst_return_io snd_return_io)







section \<open>Sections that return close with the banner\<close>

lemma program_header_closes: "\<exists>pre. fst print_program_header = pre @ line SECTION_SPAN"
  by (simp add: print_program_header_eq)

lemma cpu_section_closes:
  assumes "snd (get_cpu_info E P) = Inr ()"
  shows "\<exists>pre. fst (get_cpu_info E P) = pre @ line SECTION_SPAN"
  using assms
  by (cases "cpu_percent P"; cases "cpu_count_physical P"; cases "cpu_percent_percpu P";
      cases "cpu_count P"; cases "cpu_freq P")
     (auto simp: get_cpu_info_def print_section_header_eq then_io_ok then_io_print
        bind_io_call_Inr bind_io_call_Inl fst_return_io snd_return_io Let_def
        split: option.splits)

lemma memory_section_closes:
  assumes "snd (get_memory_info E P) = Inr ()"
  shows "\<exists>pre. fst (get_memory_info E P) = pre @ line SECTION_SPAN"
  using assms
  by (cases "virtual_memory P")
     (auto simp: get_memory_info_def print_section_header_eq then_io_ok then_io_print
        bind_io_call_Inr bind_io_call_Inl fst_return_io snd_return_io)

lemma disk_section_closes:
  assumes "snd (get_disk_info E P) = Inr ()"
  shows "\<exists>pre. fst (get_disk_info E P) = pre @ line SECTION_SPAN"
  using assms
  by (cases "disk_usage P")
     (auto simp: get_disk_info_def print_section_header_eq then_io_ok then_io_print
        bind_io_call_Inr bind_io_call_Inl fst_return_io snd_return_io)

lemma then_io_cases:
  "then_io m k = (case snd m of Inl e \<Rightarrow> (fst m, Inl e) | Inr u \<Rightarrow> (fst m @ fst k, snd k))"
  by (cases m; cases "snd m") (auto simp: then_io_ok then_io_raise)

lemma network_section_closes:
  assumes "snd (get_network_info E P) = Inr ()"
  shows "\<exists>pre. fst (get_network_info E P) = pre @ line SECTION_SPAN"
  using assms
  by (cases "gethostname P"; cases "net_if_stats P"; cases "net_io_counters P";
      cases "net_if_addrs P")
     (auto simp: get_network_info_def print_section_header_eq then_io_ok then_io_print
        bind_io_call_Inr bind_io_call_Inl fst_return_io snd_return_io then_io_cases fst_print
        snd_print split: sum.splits)

lemma climate_section_closes_with_data:
  assumes "read_temps P = Inr temps" "read_fans P = Inr fans" "read_battery P = Inr battery"
    and "temps \<noteq> [] \<or> fans \<noteq> [] \<or> battery \<noteq> None"
  shows "\<exists>pre. fst (get_hw_temperatures E P) = pre @ line SECTION_SPAN"
proof -
  have "fst (get_hw_temperatures E P) =
      (line CLIMATE_INFO @ line SECTION_SPAN @
       fst (for_each (name_body E temps fans) (set_iter E (map fst temps @ map fst fans))) @
       fst (battery_block E battery)) @ line SECTION_SPAN"
    using climate_with_data[OF assms, of E] by simp
  then show ?thesis by blast
qed

section \<open>The humanizer of the specification\<close>

lemma unit_order_upper: "n < 1024 ^ Suc (unit_order n)"
proof (induction n rule: unit_order.induct)
  case (1 n)
  show ?case
  proof (cases "n < 1024")
    case True
    then show ?thesis by (subst unit_order.simps) simp
  next
    case False
    then have ih: "n div 1024 < 1024 ^ Suc (unit_order (n div 1024))" using 1 by simp
    have "unit_order n = Suc (unit_order (n div 1024))"
      using False by (subst unit_order.simps) simp
    moreover have "n < 1024 * 1024 ^ Suc (unit_order (n div 1024))"
      using ih by (simp add: div_less_iff_less_mult mult.commute)
    ultimately show ?thesis by simp
  qed
qed

lemma unit_order_lower: "unit_order n = 0 \<or> 1024 ^ unit_order n \<le> n"
proof (induction n rule: unit_order.induct)
  case (1 n)
  show ?case
  proof (cases "n < 1024")
    case True
    then show ?thesis by (subst unit_order.simps) simp
  next
    case False
    then have ih: "unit_order (n div 1024) = 0 \<or> 1024 ^ unit_order (n div 1024) \<le> n div 1024"
      using 1 by simp
    have eq: "unit_order n = Suc (unit_order (n div 1024))"
      using False by (subst unit_order.simps) simp
    have "1024 ^ unit_order (n div 1024) \<le> n div 1024"
      using ih False by (auto simp: Suc_le_eq div_greater_zero_iff)
    then have "1024 * 1024 ^ unit_order (n div 1024) \<le> n"
      by (simp add: less_eq_div_iff_mult_less_eq mult.commute)
    then show ?thesis using eq by simp
  qed
qed

lemma scaled_below_iff: "(of_nat n / 1024 ^ j < (1024::rat)) = (unit_order n \<le> j)"
proof -
  have "(of_nat n / 1024 ^ j < (1024::rat)) = ((of_nat n :: rat) < 1024 * 1024 ^ j)"
    by (simp add: pos_divide_less_eq)
  also have "\<dots> = ((of_nat n :: rat) < of_nat (1024 ^ Suc j))"
    by simp
  also have "\<dots> = (n < 1024 ^ Suc j)"
    by (simp only: of_nat_less_iff)
  also have "\<dots> = (unit_order n \<le> j)"
  proof
    assume lt: "n < 1024 ^ Suc j"
    show "unit_order n \<le> j"
    proof (rule ccontr)
      assume "\<not> unit_order n \<le> j"
      then have "Suc j \<le> unit_order n" by simp
      then have "(1024::nat) ^ Suc j \<le> 1024 ^ unit_order n"
        by (intro power_increasing) simp_all
      moreover have "1024 ^ unit_order n \<le> n"
        using unit_order_lower[of n] \<open>Suc j \<le> unit_order n\<close> by auto
      ultimately show False using lt by simp
    qed
  next
    assume "unit_order n \<le> j"
    then have "(1024::nat) ^ Suc (unit_order n) \<le> 1024 ^ Suc j"
      by (intro power_increasing) simp_all
    with unit_order_upper[of n] show "n < 1024 ^ Suc j"
      by (rule less_le_trans)
  qed
  finally show ?thesis .
qed

lemma scaled_value_bounds: "0 \<le> scaled_value n \<and> scaled_value n < 1024"
  using scaled_below_iff[of n "unit_order n"] by (simp add: scaled_value_def)

lemma scaled_value_exact: "scaled_value n * 1024 ^ unit_order n = of_nat n"
  by (simp add: scaled_value_def)

lemma round_half_even_near: "\<bar>of_int (round_half_even x) - x\<bar> \<le> 1 / 2"
proof -
  have "of_int \<lfloor>x\<rfloor> \<le> x" "x < of_int \<lfloor>x\<rfloor> + 1"
    by linarith+
  then show ?thesis
    by (auto simp: round_half_even_def Let_def abs_le_iff)
qed

lemma round_half_even_nonneg: "0 \<le> x \<Longrightarrow> 0 \<le> round_half_even x"
  by (auto simp: round_half_even_def Let_def)

lemma tenths_near: "\<bar>of_nat (tenths n) / 10 - scaled_value n\<bar> \<le> 1 / 20"
proof -
  let ?x = "scaled_value n * 10"
  have "0 \<le> round_half_even ?x"
    using scaled_value_bounds[of n] by (intro round_half_even_nonneg) simp
  then have t: "(of_nat (tenths n) :: rat) = of_int (round_half_even ?x)"
    by (simp add: tenths_def)
  have "\<bar>of_int (round_half_even ?x) - ?x\<bar> \<le> 1 / 2"
    by (rule round_half_even_near)
  then show ?thesis unfolding t by (simp add: abs_le_iff field_simps)
qed

text \<open>
  C5. For every byte count \<open>n\<close>, humanizeBytes scales \<open>n\<close> by a power of 1024 to a value
  \<open>v\<close> with \<open>0 \<le> v < 1024\<close>; the unit is the one at which the value first drops below
  1024, so \<open>v \<ge> 1\<close> unless the unit is bytes. The result is \<open>v\<close> written with exactly
  one decimal digit followed by the unit's suffix. Scaling back is exact for \<open>v\<close>, and the
  written value, rounded to the nearest tenth, scales back to \<open>n\<close> within a twentieth of
  the unit.
\<close>

theorem humanizeBytes_scaled_value:
  "0 \<le> scaled_value n \<and> scaled_value n < 1024
   \<and> (\<forall>j. (of_nat n / 1024 ^ j < (1024::rat)) = (unit_order n \<le> j))
   \<and> (unit_order n = 0 \<or> 1 \<le> scaled_value n)
   \<and> humanizeBytes suffix n =
       str_nat (tenths n div 10) @ ''.'' @ [digit_char (tenths n mod 10)] @ suffix (unit_order n)
   \<and> scaled_value n * 1024 ^ unit_order n = of_nat n
   \<and> \<bar>of_nat (tenths n) / 10 - scaled_value n\<bar> \<le> 1 / 20
   \<and> \<bar>of_nat (tenths n) / 10 * 1024 ^ unit_order n - of_nat n\<bar>
       \<le> (1024::rat) ^ unit_order n / 20"
proof -
  let ?k = "unit_order n"
  have ge1: "?k = 0 \<or> 1 \<le> scaled_value n"
  proof (cases "?k = 0")
    case False
    then have "1024 ^ ?k \<le> n" using unit_order_lower[of n] by simp
    then have "(of_nat (1024 ^ ?k) :: rat) \<le> of_nat n" by (simp only: of_nat_le_iff)
    then show ?thesis by (simp add: scaled_value_def pos_le_divide_eq)
  qed simp
  have "\<bar>of_nat (tenths n) / 10 - scaled_value n\<bar> * 1024 ^ ?k \<le> 1 / 20 * 1024 ^ ?k"
    using tenths_near[of n] by (intro mult_right_mono) simp_all
  moreover have "\<bar>of_nat (tenths n) / 10 - scaled_value n\<bar> * 1024 ^ ?k
      = \<bar>(of_nat (tenths n) / 10 - scaled_value n) * 1024 ^ ?k\<bar>"
    by (rule abs_mult_pos) simp
  moreover have "(of_nat (tenths n) / 10 - scaled_value n) * 1024 ^ ?k
      = of_nat (tenths n) / 10 * 1024 ^ ?k - of_nat n"
    by (simp only: left_diff_distrib scaled_value_exact)
  ultimately have written_back:
    "\<bar>of_nat (tenths n) / 10 * 1024 ^ ?k - of_nat n\<bar> \<le> 1024 ^ ?k / (20::rat)"
    by simp
  show ?thesis
    using scaled_value_bounds[of n] scaled_below_iff[of n] ge1 tenths_near[of n] written_back
    by (simp add: humanizeBytes_def scaled_value_exact)
qed

text \<open>Two byte counts, evaluated: the second is written as 1024.0 because the value
  1023.999 is rounded to the nearest tenth.\<close>

lemma unit_order_small: "n < 1024 \<Longrightarrow> unit_order n = 0"
  by (subst unit_order.simps) simp

lemma unit_order_1536: "unit_order 1536 = 1"
  by (subst unit_order.simps) (simp add: unit_order_small)

lemma tenths_1536: "tenths 1536 = 15"
  by (simp add: tenths_def scaled_value_def unit_order_1536 round_half_even_def Let_def)

lemma humanizeBytes_example:
  "humanizeBytes (\<lambda>k. named_units ! k) 1536 = ''1.5KB''"
  by (simp add: humanizeBytes_def tenths_1536 unit_order_1536 named_units_def str_nat_lt10
      digit_char_def)

lemma unit_order_1048575: "unit_order 1048575 = 1"
  by (subst unit_order.simps) (simp add: unit_order_small)

lemma floor_example: "\<lfloor>5242875 / (512::rat)\<rfloor> = 10239"
  by (simp add: floor_unique)

lemma tenths_1048575: "tenths 1048575 = 10240"
  by (simp add: tenths_def scaled_value_def unit_order_1048575 round_half_even_def Let_def
      floor_example)

lemma str_nat_1024: "str_nat 1024 = ''1024''"
  by code_simp

lemma humanizeBytes_written_1024:
  "humanizeBytes (\<lambda>k. named_units ! k) 1048575 = ''1024.0KB''"
  by (simp add: humanizeBytes_def tenths_1048575 unit_order_1048575 named_units_def
      str_nat_1024 digit_char_def)

end
